theory Spec2Isabelle
  imports Complex_Main
begin

section \<open>JavaScript numbers\<close>

text \<open>
  The renderer computes with JavaScript numbers. Coordinates read from the canvas file
  are finite, so node fields are \<open>real\<close>. Every computed quantity is a \<open>jsnum\<close>:
  a finite real, or one of the special values that division by zero and arithmetic
  on infinities produce. Finite arithmetic is exact (rounding and overflow are not
  modelled) and zero carries no sign, so a division by zero takes the sign of its
  numerator. The model therefore speaks of documents whose sums, spans and products
  stay inside the range of a double; a coordinate near 1e308 can make the program's
  sum infinite where the model's stays finite.
\<close>

datatype jsnum = Fin real | PInf | NInf | NaN

definition jinf :: "bool \<Rightarrow> jsnum" where
  "jinf pos = (if pos then PInf else NInf)"

fun jneg :: "jsnum \<Rightarrow> jsnum" where
  "jneg (Fin a) = Fin (- a)"
| "jneg PInf = NInf"
| "jneg NInf = PInf"
| "jneg NaN = NaN"

fun jadd :: "jsnum \<Rightarrow> jsnum \<Rightarrow> jsnum" where
  "jadd NaN b = NaN"
| "jadd a NaN = NaN"
| "jadd (Fin a) (Fin b) = Fin (a + b)"
| "jadd PInf NInf = NaN"
| "jadd NInf PInf = NaN"
| "jadd PInf b = PInf"
| "jadd NInf b = NInf"
| "jadd (Fin a) b = b"

definition jsub :: "jsnum \<Rightarrow> jsnum \<Rightarrow> jsnum" where
  "jsub a b = jadd a (jneg b)"

fun jmul :: "jsnum \<Rightarrow> jsnum \<Rightarrow> jsnum" where
  "jmul NaN b = NaN"
| "jmul a NaN = NaN"
| "jmul (Fin a) (Fin b) = Fin (a * b)"
| "jmul (Fin a) PInf = (if a = 0 then NaN else jinf (0 < a))"
| "jmul (Fin a) NInf = (if a = 0 then NaN else jinf (a < 0))"
| "jmul PInf (Fin b) = (if b = 0 then NaN else jinf (0 < b))"
| "jmul NInf (Fin b) = (if b = 0 then NaN else jinf (b < 0))"
| "jmul PInf PInf = PInf"
| "jmul NInf NInf = PInf"
| "jmul PInf NInf = NInf"
| "jmul NInf PInf = NInf"

fun jdiv :: "jsnum \<Rightarrow> jsnum \<Rightarrow> jsnum" where
  "jdiv NaN b = NaN"
| "jdiv a NaN = NaN"
| "jdiv (Fin a) (Fin b) =
     (if b = 0 then (if a = 0 then NaN else jinf (0 < a)) else Fin (a / b))"
| "jdiv (Fin a) b = Fin 0"
| "jdiv PInf (Fin b) = jinf (0 \<le> b)"
| "jdiv NInf (Fin b) = jinf (b < 0)"
| "jdiv a b = NaN"

text \<open>The comparison \<open>a < b\<close>; every comparison with \<open>NaN\<close> is false.\<close>

fun jless :: "jsnum \<Rightarrow> jsnum \<Rightarrow> bool" where
  "jless NaN b = False"
| "jless a NaN = False"
| "jless (Fin a) (Fin b) = (a < b)"
| "jless a NInf = False"
| "jless NInf b = True"
| "jless PInf b = False"
| "jless (Fin a) PInf = True"

definition jgt :: "jsnum \<Rightarrow> jsnum \<Rightarrow> bool" where
  "jgt a b = jless b a"

definition jle :: "jsnum \<Rightarrow> jsnum \<Rightarrow> bool" where
  "jle a b = (a \<noteq> NaN \<and> b \<noteq> NaN \<and> \<not> jless b a)"

text \<open>\<open>Math.min\<close> and \<open>Math.max\<close> are variadic; a \<open>NaN\<close> argument makes the result \<open>NaN\<close>.\<close>

definition jmin :: "jsnum \<Rightarrow> jsnum \<Rightarrow> jsnum" where
  "jmin a b = (if a = NaN \<or> b = NaN then NaN else if jless b a then b else a)"

definition jmax :: "jsnum \<Rightarrow> jsnum \<Rightarrow> jsnum" where
  "jmax a b = (if a = NaN \<or> b = NaN then NaN else if jless a b then b else a)"

fun Math_min :: "jsnum list \<Rightarrow> jsnum" where
  "Math_min [] = PInf"
| "Math_min (a # as) = jmin a (Math_min as)"

fun Math_max :: "jsnum list \<Rightarrow> jsnum" where
  "Math_max [] = NInf"
| "Math_max (a # as) = jmax a (Math_max as)"

section \<open>Data model\<close>

datatype node_type = TextNode | FileNode | GroupNode | LinkNode

record CanvasNode =
  node_id :: string
  node_type :: node_type
  node_x :: real
  node_y :: real
  node_width :: real
  node_height :: real
  node_text :: "string option"
  node_file :: "string option"
  node_label :: "string option"

text \<open>Edges are never read by the renderer; only the nodes are kept.\<close>

record CanvasData =
  nodes :: "CanvasNode list"

record Bounds =
  minX :: jsnum
  maxX :: jsnum
  minY :: jsnum
  maxY :: jsnum

text \<open>An exception thrown with \<open>new Error(message)\<close>.\<close>

datatype error = Error string

text \<open>
  What the renderer puts on its drawing surface. A group rectangle and an anchor
  rectangle carry the flag that selects their highlighted or default style.
\<close>

datatype svg_prim =
    GroupRect jsnum jsnum real real bool
  | GroupLabel jsnum jsnum string bool
  | StationRect jsnum jsnum real real int bool
  | StationText jsnum jsnum string int

datatype svg_child =
    Defs
  | Scene jsnum jsnum jsnum "svg_prim list"
  | ErrorText string

record renderer =
  canvasData :: "CanvasData option"
  canvasPath :: "string option"
  svgElement :: "svg_child list option"
  currentStationId :: "int option"
  bounds :: Bounds
  baseScale :: jsnum
  currentZoomScale :: jsnum
  panX :: jsnum
  panY :: jsnum

definition OVERVIEW_WIDTH :: real where "OVERVIEW_WIDTH = 500"
definition OVERVIEW_HEIGHT :: real where "OVERVIEW_HEIGHT = 600"
definition PADDING :: real where "PADDING = 20"

text \<open>The state of a renderer that its constructor leaves behind.\<close>

definition new_renderer :: renderer where
  "new_renderer =
     \<lparr>canvasData = None, canvasPath = None, svgElement = Some [],
      currentStationId = None,
      bounds = \<lparr>minX = Fin 0, maxX = Fin 0, minY = Fin 0, maxY = Fin 0\<rparr>,
      baseScale = Fin 1, currentZoomScale = Fin 1, panX = Fin 0, panY = Fin 0\<rparr>"

section \<open>Strings\<close>

definition digit_char :: "nat \<Rightarrow> char" where
  "digit_char d = ''0123456789'' ! d"

fun digits :: "nat \<Rightarrow> string" where
  "digits n = (if n < 10 then [digit_char n] else digits (n div 10) @ [digit_char (n mod 10)])"

declare digits.simps [simp del]

text \<open>\<open>Number.prototype.toString\<close> on an integer station id.\<close>

definition toString :: "int \<Rightarrow> string" where
  "toString i = (if i < 0 then CHR ''-'' # digits (nat (- i)) else digits (nat i))"

definition isDigit :: "char \<Rightarrow> bool" where
  "isDigit c = (c \<in> set ''0123456789'')"

text \<open>The test \<open>/^\\d+$/.test(s)\<close>.\<close>

definition allDigits :: "string \<Rightarrow> bool" where
  "allDigits s = (s \<noteq> [] \<and> list_all isDigit s)"

definition digit_val :: "char \<Rightarrow> int" where
  "digit_val c = int (length (takeWhile (\<lambda>d. d \<noteq> c) ''0123456789''))"

text \<open>\<open>parseInt\<close>, which the renderer calls on strings of decimal digits only.\<close>

definition parseInt :: "string \<Rightarrow> int" where
  "parseInt s = foldl (\<lambda>acc c. acc * 10 + digit_val c) 0 s"

fun join :: "string \<Rightarrow> string list \<Rightarrow> string" where
  "join sep [] = []"
| "join sep [s] = s"
| "join sep (s # t # ss) = s @ sep @ join sep (t # ss)"

section \<open>Bounds and base scale\<close>

definition calculateBounds :: "renderer \<Rightarrow> renderer" where
  "calculateBounds st =
     (case canvasData st of
        None \<Rightarrow> st\<lparr>bounds := \<lparr>minX = Fin 0, maxX = Fin 100, minY = Fin 0, maxY = Fin 100\<rparr>\<rparr>
      | Some cd \<Rightarrow>
          if length (nodes cd) = 0
          then st\<lparr>bounds := \<lparr>minX = Fin 0, maxX = Fin 100, minY = Fin 0, maxY = Fin 100\<rparr>\<rparr>
          else st\<lparr>bounds :=
            \<lparr>minX = Math_min (map (\<lambda>n. Fin (node_x n)) (nodes cd)),
             maxX = Math_max (map (\<lambda>n. Fin (node_x n + node_width n)) (nodes cd)),
             minY = Math_min (map (\<lambda>n. Fin (node_y n)) (nodes cd)),
             maxY = Math_max (map (\<lambda>n. Fin (node_y n + node_height n)) (nodes cd))\<rparr>\<rparr>)"

definition calculateScale :: "renderer \<Rightarrow> renderer" where
  "calculateScale st =
     (let canvasWidth = jsub (maxX (bounds st)) (minX (bounds st));
          canvasHeight = jsub (maxY (bounds st)) (minY (bounds st));
          scaleX = jdiv (Fin (OVERVIEW_WIDTH - 2 * PADDING)) canvasWidth;
          scaleY = jdiv (Fin (OVERVIEW_HEIGHT - 2 * PADDING)) canvasHeight
      in st\<lparr>baseScale := Math_min [scaleX, scaleY, Fin 1]\<rparr>)"

definition getEffectiveScale :: "renderer \<Rightarrow> jsnum" where
  "getEffectiveScale st = jmul (baseScale st) (currentZoomScale st)"

section \<open>Group resolution\<close>

definition isNodeInGroup :: "CanvasNode \<Rightarrow> CanvasNode \<Rightarrow> bool" where
  "isNodeInGroup node grp =
     (node_x node \<ge> node_x grp \<and>
      node_y node \<ge> node_y grp \<and>
      node_x node + node_width node \<le> node_x grp + node_width grp \<and>
      node_y node + node_height node \<le> node_y grp + node_height grp)"

text \<open>The template value \<open>${node.text}\<close>; a missing text prints as \<open>undefined\<close>.\<close>

definition text_str :: "string option \<Rightarrow> string" where
  "text_str t = (case t of None \<Rightarrow> ''undefined'' | Some s \<Rightarrow> s)"

text \<open>The expression \<open>g.label || g.id\<close>: a missing or empty label gives way to the id.\<close>

definition group_name :: "CanvasNode \<Rightarrow> string" where
  "group_name g =
     (case node_label g of None \<Rightarrow> node_id g | Some l \<Rightarrow> if l = [] then node_id g else l)"

definition multiple_groups_message :: "CanvasNode \<Rightarrow> CanvasNode list \<Rightarrow> string" where
  "multiple_groups_message node containingGroups =
     ''Station '' @ text_str (node_text node) @ '' belongs to multiple groups: '' @
     join '', '' (map group_name containingGroups) @
     ''. Each station must belong to at most one group.''"

definition findContainingGroup :: "renderer \<Rightarrow> CanvasNode \<Rightarrow> error + CanvasNode option" where
  "findContainingGroup st node =
     (case canvasData st of
        None \<Rightarrow> Inr None
      | Some cd \<Rightarrow>
          let groups = filter (\<lambda>n. node_type n = GroupNode) (nodes cd);
              containingGroups = filter (\<lambda>grp. isNodeInGroup node grp) groups
          in if length containingGroups > 1
             then Inl (Error (multiple_groups_message node containingGroups))
             else Inr (if length containingGroups > 0 then Some (containingGroups ! 0) else None))"

section \<open>Framing\<close>

text \<open>
  The space inside the padding, and the size of the whole diagram at the effective
  scale: the local constants of \<open>applyPanBounds\<close>.
\<close>

definition availableWidth :: real where
  "availableWidth = OVERVIEW_WIDTH - 2 * PADDING"

definition availableHeight :: real where
  "availableHeight = OVERVIEW_HEIGHT - 2 * PADDING"

definition scaledCanvasWidth :: "renderer \<Rightarrow> jsnum" where
  "scaledCanvasWidth st = jmul (jsub (maxX (bounds st)) (minX (bounds st))) (getEffectiveScale st)"

definition scaledCanvasHeight :: "renderer \<Rightarrow> jsnum" where
  "scaledCanvasHeight st = jmul (jsub (maxY (bounds st)) (minY (bounds st))) (getEffectiveScale st)"

definition applyPanBounds :: "renderer \<Rightarrow> renderer" where
  "applyPanBounds st =
     (let st1 = (if jgt (scaledCanvasWidth st) (Fin availableWidth)
                 then let maxPanX = jsub (scaledCanvasWidth st) (Fin availableWidth)
                      in st\<lparr>panX := Math_max [jneg maxPanX, Math_min [Fin 0, panX st]]\<rparr>
                 else st)
      in if jgt (scaledCanvasHeight st) (Fin availableHeight)
         then let maxPanY = jsub (scaledCanvasHeight st) (Fin availableHeight)
              in st1\<lparr>panY := Math_max [jneg maxPanY, Math_min [Fin 0, panY st1]]\<rparr>
         else st1)"

definition panToGroup :: "renderer \<Rightarrow> CanvasNode \<Rightarrow> renderer" where
  "panToGroup st grp =
     (let groupWidth = node_width grp;
          groupHeight = node_height grp;
          zoomToFitX = jdiv (Fin availableWidth) (Fin (groupWidth * 1.2));
          zoomToFitY = jdiv (Fin availableHeight) (Fin (groupHeight * 1.2));
          targetZoom = Math_min [zoomToFitX, zoomToFitY];
          st1 = st\<lparr>currentZoomScale := Math_max [jdiv targetZoom (baseScale st), Fin 1]\<rparr>;
          effectiveScale = getEffectiveScale st1;
          groupCenterX =
            jmul (jsub (Fin (node_x grp + node_width grp / 2)) (minX (bounds st1))) effectiveScale;
          groupCenterY =
            jmul (jsub (Fin (node_y grp + node_height grp / 2)) (minY (bounds st1))) effectiveScale;
          centerX = Fin (OVERVIEW_WIDTH / 2);
          centerY = Fin (OVERVIEW_HEIGHT / 2)
      in applyPanBounds
           (st1\<lparr>panX := jsub centerX groupCenterX, panY := jsub centerY groupCenterY\<rparr>))"

definition panToNode :: "renderer \<Rightarrow> CanvasNode \<Rightarrow> renderer" where
  "panToNode st node =
     (let st1 = st\<lparr>currentZoomScale :=
                   Math_min [Fin 3, Math_max [Fin 1.5, jdiv (Fin 1) (baseScale st)]]\<rparr>;
          effectiveScale = getEffectiveScale st1;
          nodeX =
            jmul (jsub (Fin (node_x node + node_width node / 2)) (minX (bounds st1))) effectiveScale;
          nodeY =
            jmul (jsub (Fin (node_y node + node_height node / 2)) (minY (bounds st1))) effectiveScale;
          centerX = Fin (OVERVIEW_WIDTH / 2);
          centerY = Fin (OVERVIEW_HEIGHT / 2)
      in applyPanBounds (st1\<lparr>panX := jsub centerX nodeX, panY := jsub centerY nodeY\<rparr>))"

text \<open>
  The anchor of a station: the first text node whose text is the station id printed
  in decimal. With no current station the comparison is against \<open>undefined\<close>, which a
  text node without text equals.
\<close>

definition find_station_node :: "CanvasNode list \<Rightarrow> int option \<Rightarrow> CanvasNode option" where
  "find_station_node ns sid =
     List.find (\<lambda>node. node_type node = TextNode \<and> node_text node = map_option toString sid) ns"

text \<open>
  \<open>panToStation\<close> throws only from \<open>findContainingGroup\<close>, before it has written to the
  state; \<open>Inl\<close> is that exception.
\<close>

definition panToStation :: "renderer \<Rightarrow> int \<Rightarrow> error + renderer" where
  "panToStation st stationId =
     (case canvasData st of
        None \<Rightarrow> Inr st
      | Some cd \<Rightarrow>
          (case find_station_node (nodes cd) (Some stationId) of
             None \<Rightarrow> Inr st
           | Some stationNode \<Rightarrow>
               (case findContainingGroup st stationNode of
                  Inl e \<Rightarrow> Inl e
                | Inr (Some containingGroup) \<Rightarrow> Inr (panToGroup st containingGroup)
                | Inr None \<Rightarrow> Inr (panToNode st stationNode))))"

section \<open>Rendering\<close>

definition draw_group :: "renderer \<Rightarrow> CanvasNode option \<Rightarrow> CanvasNode \<Rightarrow> svg_prim list" where
  "draw_group st currentGroup groupNode =
     (let x = jsub (Fin (node_x groupNode)) (minX (bounds st));
          y = jsub (Fin (node_y groupNode)) (minY (bounds st));
          isCurrentGroup =
            (case currentGroup of None \<Rightarrow> False | Some g \<Rightarrow> node_id g = node_id groupNode)
      in GroupRect x y (node_width groupNode) (node_height groupNode) isCurrentGroup #
         (case node_label groupNode of
            None \<Rightarrow> []
          | Some l \<Rightarrow>
              if l = [] then []
              else [GroupLabel (jadd x (Fin 8)) (jadd y (Fin 25)) l isCurrentGroup]))"

definition renderGroups :: "renderer \<Rightarrow> error + svg_prim list" where
  "renderGroups st =
     (case canvasData st of
        None \<Rightarrow> Inr []
      | Some cd \<Rightarrow>
          (case (case find_station_node (nodes cd) (currentStationId st) of
                   None \<Rightarrow> Inr None
                 | Some currentStationNode \<Rightarrow> findContainingGroup st currentStationNode) of
             Inl e \<Rightarrow> Inl e
           | Inr currentGroup \<Rightarrow>
               Inr (concat (map (draw_group st currentGroup)
                      (filter (\<lambda>node. node_type node = GroupNode) (nodes cd))))))"

definition draw_node :: "renderer \<Rightarrow> CanvasNode \<Rightarrow> svg_prim list" where
  "draw_node st node =
     (if node_type node = GroupNode then []
      else if \<not> (node_type node = TextNode \<and>
                   allDigits (case node_text node of None \<Rightarrow> [] | Some t \<Rightarrow> t)) then []
      else
        let x = jsub (Fin (node_x node)) (minX (bounds st));
            y = jsub (Fin (node_y node)) (minY (bounds st));
            t = (case node_text node of None \<Rightarrow> [] | Some t \<Rightarrow> t);
            stationId = parseInt t;
            isCurrentStation = (Some stationId = currentStationId st)
        in [StationRect x y (node_width node) (node_height node) stationId isCurrentStation,
            StationText (jadd x (Fin (node_width node / 2))) (jadd y (Fin (node_height node / 2)))
              t stationId])"

definition renderNodes :: "renderer \<Rightarrow> svg_prim list" where
  "renderNodes st =
     (case canvasData st of
        None \<Rightarrow> []
      | Some cd \<Rightarrow> concat (map (draw_node st) (nodes cd)))"

text \<open>
  An operation that can throw returns the state it leaves behind together with the
  exception, if any: what it wrote before throwing stays written.
\<close>

definition render :: "renderer \<Rightarrow> renderer \<times> error option" where
  "render st =
     (if svgElement st = None \<or> canvasData st = None then (st, None)
      else
        let st1 = st\<lparr>svgElement := Some [Defs]\<rparr>;
            tx = jadd (Fin PADDING) (panX st1);
            ty = jadd (Fin PADDING) (panY st1)
        in case renderGroups st1 of
             Inl e \<Rightarrow> (st1, Some e)
           | Inr gs \<Rightarrow>
               (st1\<lparr>svgElement :=
                  Some [Defs, Scene tx ty (getEffectiveScale st1) (gs @ renderNodes st1)]\<rparr>,
                None))"

definition showError :: "renderer \<Rightarrow> string \<Rightarrow> renderer" where
  "showError st message =
     (if svgElement st = None then st else st\<lparr>svgElement := Some [ErrorText message]\<rparr>)"

section \<open>Control surface\<close>

text \<open>
  The file read and the JSON parse are outside the renderer: \<open>loadCanvas\<close> takes their
  result, \<open>None\<close> when either failed. Every exception raised inside is caught.
\<close>

definition loadCanvas :: "renderer \<Rightarrow> string \<Rightarrow> CanvasData option \<Rightarrow> renderer" where
  "loadCanvas st path parsed =
     (let st1 = st\<lparr>canvasPath := Some path\<rparr>
      in case parsed of
           None \<Rightarrow> showError st1 ''Failed to load canvas''
         | Some cd \<Rightarrow>
             (case render (calculateScale (calculateBounds (st1\<lparr>canvasData := Some cd\<rparr>))) of
                (st2, None) \<Rightarrow> st2
              | (st2, Some e) \<Rightarrow> showError st2 ''Failed to load canvas''))"

definition setCurrentStation :: "renderer \<Rightarrow> int \<Rightarrow> renderer \<times> error option" where
  "setCurrentStation st stationId =
     (let st1 = st\<lparr>currentStationId := Some stationId\<rparr>
      in case panToStation st1 stationId of
           Inl e \<Rightarrow> (st1, Some e)
         | Inr st2 \<Rightarrow> render st2)"

definition resetZoom :: "renderer \<Rightarrow> renderer \<times> error option" where
  "resetZoom st = render (st\<lparr>currentZoomScale := Fin 1, panX := Fin 0, panY := Fin 0\<rparr>)"

definition destroy :: "renderer \<Rightarrow> renderer" where
  "destroy st = st\<lparr>svgElement := None\<rparr>"

section \<open>The specification's own formulations\<close>

text \<open>
  Containment as the specification words it: the rectangle of node \<open>N\<close> lies entirely
  within the rectangle of group \<open>G\<close>.
\<close>

definition contained_spec :: "CanvasNode \<Rightarrow> CanvasNode \<Rightarrow> bool" where
  "contained_spec N G =
     (node_x N \<ge> node_x G \<and> node_y N \<ge> node_y G \<and>
      node_x N + node_width N \<le> node_x G + node_width G \<and>
      node_y N + node_height N \<le> node_y G + node_height G)"

text \<open>The group-kind nodes of a document that contain a node, in document order.\<close>

definition groups_containing :: "CanvasData \<Rightarrow> CanvasNode \<Rightarrow> CanvasNode list" where
  "groups_containing cd N =
     filter (\<lambda>G. node_type G = GroupNode \<and> contained_spec N G) (nodes cd)"

text \<open>
  The base scale as the specification words it, over the reals: a span of zero is
  replaced by the 100 units of the placeholder box, so that nothing is divided by zero.
\<close>

definition guarded_span :: "real \<Rightarrow> real" where
  "guarded_span s = (if s = 0 then 100 else s)"

definition baseScale_guarded :: "real \<Rightarrow> real \<Rightarrow> real \<Rightarrow> real \<Rightarrow> real" where
  "baseScale_guarded x0 x1 y0 y1 =
     min ((OVERVIEW_WIDTH - 2 * PADDING) / guarded_span (x1 - x0))
         (min ((OVERVIEW_HEIGHT - 2 * PADDING) / guarded_span (y1 - y0)) 1)"


section \<open>Example documents\<close>

definition canvas_node ::
  "string \<Rightarrow> node_type \<Rightarrow> real \<Rightarrow> real \<Rightarrow> real \<Rightarrow> real \<Rightarrow>
   string option \<Rightarrow> string option \<Rightarrow> CanvasNode" where
  "canvas_node i t x y w h txt lbl =
     \<lparr>node_id = i, node_type = t, node_x = x, node_y = y, node_width = w, node_height = h,
      node_text = txt, node_file = None, node_label = lbl\<rparr>"

text \<open>One group with the anchor of station 7 inside and the anchor of station 9 outside.\<close>

definition room_group :: CanvasNode where
  "room_group = canvas_node ''g1'' GroupNode 0 0 400 300 None (Some ''Room A'')"

definition anchor7 :: CanvasNode where
  "anchor7 = canvas_node ''n7'' TextNode 50 50 40 40 (Some ''7'') None"

definition anchor9 :: CanvasNode where
  "anchor9 = canvas_node ''n9'' TextNode 500 500 40 40 (Some ''9'') None"

definition room_doc :: CanvasData where
  "room_doc = \<lparr>nodes = [room_group, anchor7, anchor9]\<rparr>"

text \<open>Two overlapping groups that both contain the anchor of station 7.\<close>

definition inner_group :: CanvasNode where
  "inner_group = canvas_node ''g2'' GroupNode 10 10 200 200 None None"

definition overlap_doc :: CanvasData where
  "overlap_doc = \<lparr>nodes = [room_group, inner_group, anchor7]\<rparr>"

text \<open>A single group that is exactly as large as the padded viewport.\<close>

definition fit_group :: CanvasNode where
  "fit_group = canvas_node ''g3'' GroupNode 0 0 460 560 None (Some ''Hall'')"

definition fit_doc :: CanvasData where
  "fit_doc = \<lparr>nodes = [fit_group, anchor7]\<rparr>"

definition empty_doc :: CanvasData where
  "empty_doc = \<lparr>nodes = []\<rparr>"

text \<open>A freshly constructed renderer after it has loaded a document.\<close>

definition loaded :: "CanvasData \<Rightarrow> renderer" where
  "loaded cd = loadCanvas new_renderer ''palace.canvas'' (Some cd)"

section \<open>Arithmetic of JavaScript numbers\<close>

lemmas example_defs = canvas_node_def room_group_def anchor7_def anchor9_def room_doc_def
  inner_group_def overlap_doc_def fit_group_def fit_doc_def empty_doc_def

lemma jmin_Fin [simp]: "jmin (Fin a) (Fin b) = Fin (min a b)"
  by (simp add: jmin_def min_def)

lemma jmax_Fin [simp]: "jmax (Fin a) (Fin b) = Fin (max a b)"
  by (simp add: jmax_def max_def)

lemma jmin_PInf_left [simp]: "jmin PInf (Fin a) = Fin a"
  by (simp add: jmin_def)

lemma jmax_NInf_right [simp]: "jmax b NInf = b"
  by (cases b) (simp_all add: jmax_def)

lemma jmin_PInf_right [simp]: "jmin b PInf = b"
  by (cases b) (simp_all add: jmin_def)

lemma jsub_Fin [simp]: "jsub (Fin a) (Fin b) = Fin (a - b)"
  by (simp add: jsub_def)

lemma Math_min_Fin: "xs \<noteq> [] \<Longrightarrow> Math_min (map (\<lambda>n. Fin (f n)) xs) = Fin (Min (f ` set xs))"
proof (induction xs)
  case Nil
  then show ?case by simp
next
  case (Cons a xs)
  show ?case
  proof (cases "xs = []")
    case True
    then show ?thesis by simp
  next
    case False
    with Cons.IH show ?thesis by simp
  qed
qed

lemma Math_max_Fin: "xs \<noteq> [] \<Longrightarrow> Math_max (map (\<lambda>n. Fin (f n)) xs) = Fin (Max (f ` set xs))"
proof (induction xs)
  case Nil
  then show ?case by simp
next
  case (Cons a xs)
  show ?case
  proof (cases "xs = []")
    case True
    then show ?thesis by simp
  next
    case False
    with Cons.IH show ?thesis by simp
  qed
qed

section \<open>Group resolution\<close>

lemma filter_groups_containing:
  "filter (\<lambda>g. node_type g = GroupNode \<and> isNodeInGroup n g) (nodes cd) =
   groups_containing cd n"
  by (simp add: groups_containing_def isNodeInGroup_def contained_spec_def)

text \<open>
  Claim C2. With a document loaded, group resolution looks at the group-kind nodes that
  contain the node under the specification's containment predicate. If there is none
  it returns null; if there is exactly one it returns that group; if there are two or
  more it throws an error whose message carries the node's text and, joined by commas,
  the label (or, failing a label, the id) of every containing group.
\<close>

theorem findContainingGroup_cases:
  assumes "canvasData st = Some cd"
  shows "(groups_containing cd n = [] \<longrightarrow> findContainingGroup st n = Inr None) \<and>
         (\<forall>g. groups_containing cd n = [g] \<longrightarrow> findContainingGroup st n = Inr (Some g)) \<and>
         (length (groups_containing cd n) \<ge> 2 \<longrightarrow> findContainingGroup st n =
            Inl (Error (''Station '' @ text_str (node_text n) @ '' belongs to multiple groups: '' @
                        join '', '' (map group_name (groups_containing cd n)) @
                        ''. Each station must belong to at most one group.'')))"
  using assms
  by (auto simp add: findContainingGroup_def Let_def multiple_groups_message_def
      filter_groups_containing)

text \<open>
  The three cases on the example documents: station 9 lies in no group, station 7 in
  exactly one, and in the overlapping document station 7 lies in two.
\<close>

theorem findContainingGroup_cases_witness:
  "canvasData (new_renderer\<lparr>canvasData := Some room_doc\<rparr>) = Some room_doc \<and>
   groups_containing room_doc anchor9 = [] \<and>
   findContainingGroup (new_renderer\<lparr>canvasData := Some room_doc\<rparr>) anchor9 = Inr None \<and>
   groups_containing room_doc anchor7 = [room_group] \<and>
   findContainingGroup (new_renderer\<lparr>canvasData := Some room_doc\<rparr>) anchor7 =
     Inr (Some room_group) \<and>
   canvasData (new_renderer\<lparr>canvasData := Some overlap_doc\<rparr>) = Some overlap_doc \<and>
   length (groups_containing overlap_doc anchor7) \<ge> 2 \<and>
   findContainingGroup (new_renderer\<lparr>canvasData := Some overlap_doc\<rparr>) anchor7 =
     Inl (Error ''Station 7 belongs to multiple groups: Room A, g2. Each station must belong to at most one group.'')"
proof -
  have d1: "canvasData (new_renderer\<lparr>canvasData := Some room_doc\<rparr>) = Some room_doc"
    by simp
  have d2: "canvasData (new_renderer\<lparr>canvasData := Some overlap_doc\<rparr>) = Some overlap_doc"
    by simp
  have g9: "groups_containing room_doc anchor9 = []"
    by (simp add: groups_containing_def contained_spec_def example_defs)
  have g7: "groups_containing room_doc anchor7 = [room_group]"
    by (simp add: groups_containing_def contained_spec_def example_defs)
  have g2: "groups_containing overlap_doc anchor7 = [room_group, inner_group]"
    by (simp add: groups_containing_def contained_spec_def example_defs)
  have r9: "findContainingGroup (new_renderer\<lparr>canvasData := Some room_doc\<rparr>) anchor9 = Inr None"
    using findContainingGroup_cases [OF d1, of anchor9] g9 by blast
  have r7: "findContainingGroup (new_renderer\<lparr>canvasData := Some room_doc\<rparr>) anchor7 =
      Inr (Some room_group)"
    using findContainingGroup_cases [OF d1, of anchor7] g7 by blast
  have len: "length (groups_containing overlap_doc anchor7) \<ge> 2"
    by (simp add: g2)
  have raw: "findContainingGroup (new_renderer\<lparr>canvasData := Some overlap_doc\<rparr>) anchor7 =
      Inl (Error (''Station '' @ text_str (node_text anchor7) @ '' belongs to multiple groups: '' @
                        join '', '' (map group_name (groups_containing overlap_doc anchor7)) @
                        ''. Each station must belong to at most one group.''))"
    using findContainingGroup_cases [OF d2, of anchor7] len by blast
  have msg: "(Inl (Error (''Station '' @ text_str (node_text anchor7) @ '' belongs to multiple groups: '' @
                        join '', '' (map group_name (groups_containing overlap_doc anchor7)) @
                        ''. Each station must belong to at most one group.'')) :: error + CanvasNode option) =
     Inl (Error ''Station 7 belongs to multiple groups: Room A, g2. Each station must belong to at most one group.'')"
    unfolding g2
    by (simp add: text_str_def group_name_def canvas_node_def room_group_def inner_group_def
        anchor7_def)
  from raw msg have r2: "findContainingGroup (new_renderer\<lparr>canvasData := Some overlap_doc\<rparr>) anchor7 =
     Inl (Error ''Station 7 belongs to multiple groups: Room A, g2. Each station must belong to at most one group.'')"
    by (rule trans)
  from d1 d2 g9 g7 len r9 r7 r2 show ?thesis by simp
qed

section \<open>Bounds\<close>

text \<open>
  Claim C3. For a non-empty node list the computed bounds are the minimum of the left
  edges, the maximum of the right edges, the minimum of the top edges and the maximum
  of the bottom edges; for the empty list they are the placeholder box 0, 100, 0, 100.
\<close>

theorem calculateBounds_min_max:
  "(nodes cd \<noteq> [] \<longrightarrow>
      bounds (calculateBounds (st\<lparr>canvasData := Some cd\<rparr>)) =
        \<lparr>minX = Fin (Min (node_x ` set (nodes cd))),
         maxX = Fin (Max ((\<lambda>n. node_x n + node_width n) ` set (nodes cd))),
         minY = Fin (Min (node_y ` set (nodes cd))),
         maxY = Fin (Max ((\<lambda>n. node_y n + node_height n) ` set (nodes cd)))\<rparr>) \<and>
   (nodes cd = [] \<longrightarrow>
      bounds (calculateBounds (st\<lparr>canvasData := Some cd\<rparr>)) =
        \<lparr>minX = Fin 0, maxX = Fin 100, minY = Fin 0, maxY = Fin 100\<rparr>)"
  by (simp add: calculateBounds_def Math_min_Fin Math_max_Fin)

text \<open>The bounds of the one-room example and of the empty document.\<close>

theorem calculateBounds_min_max_witness:
  "nodes room_doc \<noteq> [] \<and>
   bounds (calculateBounds (new_renderer\<lparr>canvasData := Some room_doc\<rparr>)) =
     \<lparr>minX = Fin 0, maxX = Fin 540, minY = Fin 0, maxY = Fin 540\<rparr> \<and>
   nodes empty_doc = [] \<and>
   bounds (calculateBounds (new_renderer\<lparr>canvasData := Some empty_doc\<rparr>)) =
     \<lparr>minX = Fin 0, maxX = Fin 100, minY = Fin 0, maxY = Fin 100\<rparr>"
proof -
  have a: "nodes room_doc \<noteq> []" by (simp add: room_doc_def)
  have b: "nodes empty_doc = []" by (simp add: empty_doc_def)
  have "bounds (calculateBounds (new_renderer\<lparr>canvasData := Some room_doc\<rparr>)) =
        \<lparr>minX = Fin (Min (node_x ` set (nodes room_doc))),
         maxX = Fin (Max ((\<lambda>n. node_x n + node_width n) ` set (nodes room_doc))),
         minY = Fin (Min (node_y ` set (nodes room_doc))),
         maxY = Fin (Max ((\<lambda>n. node_y n + node_height n) ` set (nodes room_doc)))\<rparr>"
    using calculateBounds_min_max [of room_doc new_renderer] a by blast
  then have A: "bounds (calculateBounds (new_renderer\<lparr>canvasData := Some room_doc\<rparr>)) =
     \<lparr>minX = Fin 0, maxX = Fin 540, minY = Fin 0, maxY = Fin 540\<rparr>"
    by (simp add: example_defs)
  have B: "bounds (calculateBounds (new_renderer\<lparr>canvasData := Some empty_doc\<rparr>)) =
     \<lparr>minX = Fin 0, maxX = Fin 100, minY = Fin 0, maxY = Fin 100\<rparr>"
    using calculateBounds_min_max [of empty_doc new_renderer] b by blast
  from a b A B show ?thesis by simp
qed


section \<open>Base scale\<close>

lemma baseScale_calculateScale:
  assumes "bounds st = \<lparr>minX = Fin x0, maxX = Fin x1, minY = Fin y0, maxY = Fin y1\<rparr>"
  shows "baseScale (calculateScale st) = Fin (baseScale_guarded x0 x1 y0 y1)"
proof -
  have w: "jdiv (Fin (OVERVIEW_WIDTH - 2 * PADDING)) (Fin (x1 - x0)) =
      (if x1 - x0 = 0 then PInf else Fin ((OVERVIEW_WIDTH - 2 * PADDING) / (x1 - x0)))"
    by (simp add: OVERVIEW_WIDTH_def PADDING_def jinf_def)
  have h: "jdiv (Fin (OVERVIEW_HEIGHT - 2 * PADDING)) (Fin (y1 - y0)) =
      (if y1 - y0 = 0 then PInf else Fin ((OVERVIEW_HEIGHT - 2 * PADDING) / (y1 - y0)))"
    by (simp add: OVERVIEW_HEIGHT_def PADDING_def jinf_def)
  have "baseScale (calculateScale st) =
      jmin (jdiv (Fin (OVERVIEW_WIDTH - 2 * PADDING)) (Fin (x1 - x0)))
        (jmin (jdiv (Fin (OVERVIEW_HEIGHT - 2 * PADDING)) (Fin (y1 - y0))) (Fin 1))"
    by (simp add: calculateScale_def Let_def assms)
  also have "\<dots> = Fin (baseScale_guarded x0 x1 y0 y1)"
    unfolding w h
    by (simp add: baseScale_guarded_def guarded_span_def OVERVIEW_WIDTH_def OVERVIEW_HEIGHT_def
        PADDING_def)
  finally show ?thesis .
qed

text \<open>
  Claim C5. On every finite bounds box the base scale that \<open>calculateScale\<close> stores is
  the finite number the guarded computation of the specification yields, in which a
  span of zero counts as the 100 units of the placeholder box. The code itself has no
  guard: its division by a zero span gives \<open>Infinity\<close>, which the cap at 1 in
  \<open>Math.min\<close> removes, and 460/100 and 560/100 lie above that cap as well. The
  computation is total and its result is never \<open>NaN\<close> or infinite.
\<close>

theorem calculateScale_guarded:
  "baseScale (calculateScale (st\<lparr>bounds := \<lparr>minX = Fin x0, maxX = Fin x1, minY = Fin y0, maxY = Fin y1\<rparr>\<rparr>)) =
     Fin (baseScale_guarded x0 x1 y0 y1)"
  by (rule baseScale_calculateScale) simp

text \<open>A box of zero width and height, and a box of zero width that is too tall.\<close>

theorem calculateScale_guarded_witness:
  "baseScale (calculateScale (new_renderer\<lparr>bounds := \<lparr>minX = Fin 0, maxX = Fin 0, minY = Fin 0, maxY = Fin 0\<rparr>\<rparr>)) = Fin 1 \<and>
   baseScale (calculateScale (new_renderer\<lparr>bounds := \<lparr>minX = Fin 5, maxX = Fin 5, minY = Fin 0, maxY = Fin 1120\<rparr>\<rparr>)) = Fin (1 / 2)"
proof -
  have a: "baseScale_guarded 0 0 0 0 = 1"
    by (simp add: baseScale_guarded_def guarded_span_def OVERVIEW_WIDTH_def OVERVIEW_HEIGHT_def
        PADDING_def)
  have b: "baseScale_guarded 5 5 0 1120 = 1 / 2"
    by (simp add: baseScale_guarded_def guarded_span_def OVERVIEW_WIDTH_def OVERVIEW_HEIGHT_def
        PADDING_def)
  show ?thesis
    using calculateScale_guarded [where st = new_renderer and ?x0.0 = 0 and ?x1.0 = 0 and ?y0.0 = 0 and ?y1.0 = 0]
      calculateScale_guarded [where st = new_renderer and ?x0.0 = 5 and ?x1.0 = 5 and ?y0.0 = 0 and ?y1.0 = 1120]
    unfolding a b by (rule conjI)
qed

text \<open>
  Claim C4. On finite bounds the base scale is the least of the two ratios of padded
  viewport size to bounds span and 1; over the reals when neither span is zero. It is
  below 1 whenever the bounds are wider or taller than the padded viewport, and it is
  exactly 1 whenever both spans fit.
\<close>

theorem calculateScale_never_upscales:
  assumes "bounds st = \<lparr>minX = Fin x0, maxX = Fin x1, minY = Fin y0, maxY = Fin y1\<rparr>"
  shows "baseScale (calculateScale st) =
           Math_min [jdiv (Fin (OVERVIEW_WIDTH - 2 * PADDING)) (Fin (x1 - x0)),
                     jdiv (Fin (OVERVIEW_HEIGHT - 2 * PADDING)) (Fin (y1 - y0)), Fin 1] \<and>
         (x1 - x0 \<noteq> 0 \<and> y1 - y0 \<noteq> 0 \<longrightarrow>
            baseScale (calculateScale st) =
              Fin (min ((OVERVIEW_WIDTH - 2 * PADDING) / (x1 - x0))
                    (min ((OVERVIEW_HEIGHT - 2 * PADDING) / (y1 - y0)) 1))) \<and>
         (x1 - x0 > OVERVIEW_WIDTH - 2 * PADDING \<or> y1 - y0 > OVERVIEW_HEIGHT - 2 * PADDING \<longrightarrow>
            (\<exists>b. baseScale (calculateScale st) = Fin b \<and> b < 1)) \<and>
         (0 \<le> x1 - x0 \<and> x1 - x0 \<le> OVERVIEW_WIDTH - 2 * PADDING \<and>
          0 \<le> y1 - y0 \<and> y1 - y0 \<le> OVERVIEW_HEIGHT - 2 * PADDING \<longrightarrow>
            baseScale (calculateScale st) = Fin 1)"
proof (intro conjI impI)
  show "baseScale (calculateScale st) =
           Math_min [jdiv (Fin (OVERVIEW_WIDTH - 2 * PADDING)) (Fin (x1 - x0)),
                     jdiv (Fin (OVERVIEW_HEIGHT - 2 * PADDING)) (Fin (y1 - y0)), Fin 1]"
    by (simp add: calculateScale_def Let_def assms)
next
  assume "x1 - x0 \<noteq> 0 \<and> y1 - y0 \<noteq> 0"
  then show "baseScale (calculateScale st) =
              Fin (min ((OVERVIEW_WIDTH - 2 * PADDING) / (x1 - x0))
                    (min ((OVERVIEW_HEIGHT - 2 * PADDING) / (y1 - y0)) 1))"
    by (simp add: baseScale_calculateScale [OF assms] baseScale_guarded_def guarded_span_def)
next
  assume big: "x1 - x0 > OVERVIEW_WIDTH - 2 * PADDING \<or> y1 - y0 > OVERVIEW_HEIGHT - 2 * PADDING"
  have "baseScale_guarded x0 x1 y0 y1 < 1"
    using big
    by (auto simp add: baseScale_guarded_def guarded_span_def OVERVIEW_WIDTH_def
        OVERVIEW_HEIGHT_def PADDING_def min_less_iff_disj)
  then show "\<exists>b. baseScale (calculateScale st) = Fin b \<and> b < 1"
    by (simp add: baseScale_calculateScale [OF assms])
next
  assume small: "0 \<le> x1 - x0 \<and> x1 - x0 \<le> OVERVIEW_WIDTH - 2 * PADDING \<and>
          0 \<le> y1 - y0 \<and> y1 - y0 \<le> OVERVIEW_HEIGHT - 2 * PADDING"
  have "baseScale_guarded x0 x1 y0 y1 = 1"
    using small
    by (auto simp add: baseScale_guarded_def guarded_span_def OVERVIEW_WIDTH_def
        OVERVIEW_HEIGHT_def PADDING_def min_def)
  then show "baseScale (calculateScale st) = Fin 1"
    by (simp add: baseScale_calculateScale [OF assms])
qed


text \<open>The one-room document is wider than the padded viewport; a 400 by 300 box fits.\<close>

theorem calculateScale_never_upscales_witness:
  "bounds (new_renderer\<lparr>bounds := \<lparr>minX = Fin 0, maxX = Fin 540, minY = Fin 0, maxY = Fin 540\<rparr>\<rparr>) =
     \<lparr>minX = Fin 0, maxX = Fin 540, minY = Fin 0, maxY = Fin 540\<rparr> \<and>
   (540 - 0 > OVERVIEW_WIDTH - 2 * PADDING \<or> 540 - 0 > OVERVIEW_HEIGHT - 2 * PADDING) \<and>
   (\<exists>b. baseScale (calculateScale
      (new_renderer\<lparr>bounds := \<lparr>minX = Fin 0, maxX = Fin 540, minY = Fin 0, maxY = Fin 540\<rparr>\<rparr>)) =
      Fin b \<and> b < 1) \<and>
   (0 \<le> (400::real) - 0 \<and> 400 - 0 \<le> OVERVIEW_WIDTH - 2 * PADDING \<and>
    0 \<le> (300::real) - 0 \<and> 300 - 0 \<le> OVERVIEW_HEIGHT - 2 * PADDING) \<and>
   baseScale (calculateScale
      (new_renderer\<lparr>bounds := \<lparr>minX = Fin 0, maxX = Fin 400, minY = Fin 0, maxY = Fin 300\<rparr>\<rparr>)) =
      Fin 1"
proof -
  have b1: "bounds (new_renderer\<lparr>bounds := \<lparr>minX = Fin 0, maxX = Fin 540, minY = Fin 0, maxY = Fin 540\<rparr>\<rparr>) =
     \<lparr>minX = Fin 0, maxX = Fin 540, minY = Fin 0, maxY = Fin 540\<rparr>"
    by simp
  have b2: "bounds (new_renderer\<lparr>bounds := \<lparr>minX = Fin 0, maxX = Fin 400, minY = Fin 0, maxY = Fin 300\<rparr>\<rparr>) =
     \<lparr>minX = Fin 0, maxX = Fin 400, minY = Fin 0, maxY = Fin 300\<rparr>"
    by simp
  have wide: "540 - 0 > OVERVIEW_WIDTH - 2 * PADDING \<or> 540 - 0 > OVERVIEW_HEIGHT - 2 * PADDING"
    by (simp add: OVERVIEW_WIDTH_def PADDING_def)
  have fits: "0 \<le> (400::real) - 0 \<and> 400 - 0 \<le> OVERVIEW_WIDTH - 2 * PADDING \<and>
    0 \<le> (300::real) - 0 \<and> 300 - 0 \<le> OVERVIEW_HEIGHT - 2 * PADDING"
    by (simp add: OVERVIEW_WIDTH_def OVERVIEW_HEIGHT_def PADDING_def)
  have r1: "\<exists>b. baseScale (calculateScale
      (new_renderer\<lparr>bounds := \<lparr>minX = Fin 0, maxX = Fin 540, minY = Fin 0, maxY = Fin 540\<rparr>\<rparr>)) =
      Fin b \<and> b < 1"
    using calculateScale_never_upscales [OF b1] wide by blast
  have r2: "baseScale (calculateScale
      (new_renderer\<lparr>bounds := \<lparr>minX = Fin 0, maxX = Fin 400, minY = Fin 0, maxY = Fin 300\<rparr>\<rparr>)) =
      Fin 1"
    using calculateScale_never_upscales [OF b2] fits by blast
  from b1 wide r1 fits r2 show ?thesis by blast
qed

section \<open>What framing reads and writes\<close>

lemma applyPanBounds_frame [simp]:
  "canvasData (applyPanBounds s) = canvasData s"
  "canvasPath (applyPanBounds s) = canvasPath s"
  "svgElement (applyPanBounds s) = svgElement s"
  "currentStationId (applyPanBounds s) = currentStationId s"
  "bounds (applyPanBounds s) = bounds s"
  "baseScale (applyPanBounds s) = baseScale s"
  "currentZoomScale (applyPanBounds s) = currentZoomScale s"
  by (simp_all add: applyPanBounds_def Let_def)

lemma scaled_applyPanBounds [simp]:
  "getEffectiveScale (applyPanBounds s) = getEffectiveScale s"
  "scaledCanvasWidth (applyPanBounds s) = scaledCanvasWidth s"
  "scaledCanvasHeight (applyPanBounds s) = scaledCanvasHeight s"
  by (simp_all add: getEffectiveScale_def scaledCanvasWidth_def scaledCanvasHeight_def)



lemma panToGroup_frame [simp]:
  "canvasData (panToGroup s g) = canvasData s"
  "canvasPath (panToGroup s g) = canvasPath s"
  "svgElement (panToGroup s g) = svgElement s"
  "currentStationId (panToGroup s g) = currentStationId s"
  "bounds (panToGroup s g) = bounds s"
  "baseScale (panToGroup s g) = baseScale s"
  by (simp_all add: panToGroup_def Let_def)

lemma panToNode_frame [simp]:
  "canvasData (panToNode s n) = canvasData s"
  "canvasPath (panToNode s n) = canvasPath s"
  "svgElement (panToNode s n) = svgElement s"
  "currentStationId (panToNode s n) = currentStationId s"
  "bounds (panToNode s n) = bounds s"
  "baseScale (panToNode s n) = baseScale s"
  by (simp_all add: panToNode_def Let_def)


lemma zoom_panToNode:
  "currentZoomScale (panToNode s n) =
     jmin (Fin 3) (jmax (Fin 1.5) (jdiv (Fin 1) (baseScale s)))"
  by (simp add: panToNode_def Let_def)



lemma panToGroup_svg:
  "panToGroup (s\<lparr>svgElement := v\<rparr>) g = (panToGroup s g)\<lparr>svgElement := v\<rparr>"
  by (simp add: panToGroup_def Let_def applyPanBounds_def scaledCanvasWidth_def
      scaledCanvasHeight_def getEffectiveScale_def)

lemma panToNode_svg:
  "panToNode (s\<lparr>svgElement := v\<rparr>) n = (panToNode s n)\<lparr>svgElement := v\<rparr>"
  by (simp add: panToNode_def Let_def applyPanBounds_def scaledCanvasWidth_def
      scaledCanvasHeight_def getEffectiveScale_def)

text \<open>Framing overwrites zoom and pan with values computed from bounds and base scale alone.\<close>

lemma panToGroup_overwrites:
  "panToGroup (s\<lparr>currentZoomScale := z, panX := px, panY := py\<rparr>) g = panToGroup s g"
  by (simp add: panToGroup_def Let_def applyPanBounds_def scaledCanvasWidth_def
      scaledCanvasHeight_def getEffectiveScale_def)

lemma panToNode_overwrites:
  "panToNode (s\<lparr>currentZoomScale := z, panX := px, panY := py\<rparr>) n = panToNode s n"
  by (simp add: panToNode_def Let_def applyPanBounds_def scaledCanvasWidth_def
      scaledCanvasHeight_def getEffectiveScale_def)

lemma transform_only:
  assumes "canvasData a = canvasData s" "canvasPath a = canvasPath s"
    "svgElement a = svgElement s" "currentStationId a = currentStationId s"
    "bounds a = bounds s" "baseScale a = baseScale s" "renderer.more a = renderer.more s"
  shows "a = s\<lparr>currentZoomScale := currentZoomScale a, panX := panX a, panY := panY a\<rparr>"
  using assms by (intro renderer.equality) simp_all

lemma panToGroup_idem: "panToGroup (panToGroup s g) g = panToGroup s g"
proof -
  have "renderer.more (panToGroup s g) = renderer.more s"
    by (simp add: panToGroup_def Let_def applyPanBounds_def)
  then have "panToGroup s g =
      s\<lparr>currentZoomScale := currentZoomScale (panToGroup s g), panX := panX (panToGroup s g),
        panY := panY (panToGroup s g)\<rparr>"
    by (intro transform_only) simp_all
  then have "panToGroup (panToGroup s g) g =
      panToGroup (s\<lparr>currentZoomScale := currentZoomScale (panToGroup s g),
        panX := panX (panToGroup s g), panY := panY (panToGroup s g)\<rparr>) g"
    by (rule arg_cong [of _ _ "\<lambda>a. panToGroup a g"])
  then show ?thesis by (simp only: panToGroup_overwrites)
qed

lemma panToNode_idem: "panToNode (panToNode s n) n = panToNode s n"
proof -
  have "renderer.more (panToNode s n) = renderer.more s"
    by (simp add: panToNode_def Let_def applyPanBounds_def)
  then have "panToNode s n =
      s\<lparr>currentZoomScale := currentZoomScale (panToNode s n), panX := panX (panToNode s n),
        panY := panY (panToNode s n)\<rparr>"
    by (intro transform_only) simp_all
  then have "panToNode (panToNode s n) n =
      panToNode (s\<lparr>currentZoomScale := currentZoomScale (panToNode s n),
        panX := panX (panToNode s n), panY := panY (panToNode s n)\<rparr>) n"
    by (rule arg_cong [of _ _ "\<lambda>a. panToNode a n"])
  then show ?thesis by (simp only: panToNode_overwrites)
qed

section \<open>What rendering reads and writes\<close>

lemma findContainingGroup_cong:
  "canvasData a = canvasData b \<Longrightarrow> findContainingGroup a n = findContainingGroup b n"
  by (simp add: findContainingGroup_def)

lemma findContainingGroup_svg [simp]:
  "findContainingGroup (s\<lparr>svgElement := v\<rparr>) n = findContainingGroup s n"
  by (simp add: findContainingGroup_def)

lemma draw_group_svg [simp]: "draw_group (s\<lparr>svgElement := v\<rparr>) = draw_group s"
  by (intro ext) (simp add: draw_group_def)

lemma draw_node_svg [simp]: "draw_node (s\<lparr>svgElement := v\<rparr>) = draw_node s"
  by (intro ext) (simp add: draw_node_def)

lemma renderGroups_svg: "renderGroups (s\<lparr>svgElement := v\<rparr>) = renderGroups s"
  by (simp add: renderGroups_def cong: option.case_cong sum.case_cong)

lemma renderNodes_svg: "renderNodes (s\<lparr>svgElement := v\<rparr>) = renderNodes s"
  by (simp add: renderNodes_def cong: option.case_cong)

lemma render_result:
  "render s =
     (if svgElement s = None \<or> canvasData s = None then (s, None)
      else case renderGroups s of
             Inl e \<Rightarrow> (s\<lparr>svgElement := Some [Defs]\<rparr>, Some e)
           | Inr gs \<Rightarrow>
               (s\<lparr>svgElement :=
                  Some [Defs, Scene (jadd (Fin PADDING) (panX s)) (jadd (Fin PADDING) (panY s))
                          (getEffectiveScale s) (gs @ renderNodes s)]\<rparr>, None))"
  by (simp add: render_def Let_def renderGroups_svg renderNodes_svg getEffectiveScale_def
      split: sum.splits)

lemma render_only_svg: "fst (render s) = s\<lparr>svgElement := svgElement (fst (render s))\<rparr>"
  by (simp add: render_result split: sum.splits)

lemma render_frame [simp]:
  "canvasData (fst (render s)) = canvasData s"
  "canvasPath (fst (render s)) = canvasPath s"
  "currentStationId (fst (render s)) = currentStationId s"
  "bounds (fst (render s)) = bounds s"
  "baseScale (fst (render s)) = baseScale s"
  "currentZoomScale (fst (render s)) = currentZoomScale s"
  "panX (fst (render s)) = panX s"
  "panY (fst (render s)) = panY s"
  by (simp_all add: render_result split: sum.splits)

lemma render_skipped: "svgElement s = None \<or> canvasData s = None \<Longrightarrow> render s = (s, None)"
  by (simp add: render_result)

lemma render_svg_Some:
  "svgElement s \<noteq> None \<Longrightarrow> canvasData s \<noteq> None \<Longrightarrow> v \<noteq> None \<Longrightarrow>
   render (s\<lparr>svgElement := v\<rparr>) = render s"
  by (auto simp add: render_result renderGroups_svg renderNodes_svg getEffectiveScale_def
      split: sum.splits)

lemma svg_render_None: "svgElement (fst (render s)) = None \<longleftrightarrow> svgElement s = None"
  by (simp add: render_result split: sum.splits)

lemma render_idem: "render (fst (render s)) = render s"
proof (cases "svgElement s = None \<or> canvasData s = None")
  case True
  then show ?thesis by (simp add: render_skipped)
next
  case False
  have "render (fst (render s)) = render (s\<lparr>svgElement := svgElement (fst (render s))\<rparr>)"
    by (rule arg_cong [of _ _ render]) (rule render_only_svg)
  also have "\<dots> = render s"
    using False by (intro render_svg_Some) (simp_all add: svg_render_None)
  finally show ?thesis .
qed

lemma panToStation_svg:
  "panToStation (s\<lparr>svgElement := v\<rparr>) sid =
     (case panToStation s sid of Inl e \<Rightarrow> Inl e | Inr s' \<Rightarrow> Inr (s'\<lparr>svgElement := v\<rparr>))"
  by (simp add: panToStation_def panToGroup_svg panToNode_svg
      split: option.splits sum.splits)

lemma panToStation_idem:
  "panToStation s sid = Inr s' \<Longrightarrow> panToStation s' sid = Inr s'"
  by (auto simp add: panToStation_def panToGroup_idem panToNode_idem
      findContainingGroup_cong [of "panToGroup s g" s for g]
      findContainingGroup_cong [of "panToNode s n" s for n]
      split: option.splits sum.splits)

lemma panToStation_station:
  "panToStation s sid = Inr s' \<Longrightarrow> currentStationId s' = currentStationId s"
  by (auto simp add: panToStation_def split: option.splits sum.splits)

text \<open>
  Claim C9. Setting the same current station a second time changes nothing: the second
  call leaves the state of the first and reports the same outcome, from every starting
  state and for every document; in particular base scale, zoom multiplier and pan are
  the same both times. Group resolution returns a value and has no state to change.
\<close>

theorem setCurrentStation_idempotent:
  "setCurrentStation (fst (setCurrentStation st sid)) sid = setCurrentStation st sid \<and>
   baseScale (fst (setCurrentStation (fst (setCurrentStation st sid)) sid)) =
     baseScale (fst (setCurrentStation st sid)) \<and>
   currentZoomScale (fst (setCurrentStation (fst (setCurrentStation st sid)) sid)) =
     currentZoomScale (fst (setCurrentStation st sid)) \<and>
   panX (fst (setCurrentStation (fst (setCurrentStation st sid)) sid)) =
     panX (fst (setCurrentStation st sid)) \<and>
   panY (fst (setCurrentStation (fst (setCurrentStation st sid)) sid)) =
     panY (fst (setCurrentStation st sid))"
proof -
  let ?st1 = "st\<lparr>currentStationId := Some sid\<rparr>"
  have "setCurrentStation (fst (setCurrentStation st sid)) sid = setCurrentStation st sid"
  proof (cases "panToStation ?st1 sid")
    case (Inl e)
    then show ?thesis by (simp add: setCurrentStation_def)
  next
    case (Inr st2)
    have first: "setCurrentStation st sid = render st2"
      using Inr by (simp add: setCurrentStation_def)
    have cur: "currentStationId st2 = Some sid"
      using panToStation_station [OF Inr] by simp
    have again: "panToStation st2 sid = Inr st2"
      by (rule panToStation_idem [OF Inr])
    let ?st3 = "fst (render st2)"
    have st3: "?st3 = st2\<lparr>svgElement := svgElement ?st3\<rparr>"
      by (rule render_only_svg)
    have "panToStation ?st3 sid = panToStation (st2\<lparr>svgElement := svgElement ?st3\<rparr>) sid"
      by (rule arg_cong [of _ _ "\<lambda>a. panToStation a sid"]) (rule st3)
    also have "\<dots> = Inr (st2\<lparr>svgElement := svgElement ?st3\<rparr>)"
      by (simp add: panToStation_svg again)
    also have "\<dots> = Inr ?st3"
      using st3 by simp
    finally have pts: "panToStation ?st3 sid = Inr ?st3" .
    have "?st3\<lparr>currentStationId := Some sid\<rparr> = ?st3"
      using cur by simp
    then have "setCurrentStation ?st3 sid = render ?st3"
      using pts by (simp add: setCurrentStation_def)
    then show ?thesis
      by (simp add: first render_idem)
  qed
  then show ?thesis by simp
qed

section \<open>Pan clamping\<close>









section \<open>Document load\<close>

lemma showError_frame [simp]:
  "canvasData (showError s m) = canvasData s"
  "canvasPath (showError s m) = canvasPath s"
  "currentStationId (showError s m) = currentStationId s"
  "bounds (showError s m) = bounds s"
  "baseScale (showError s m) = baseScale s"
  "currentZoomScale (showError s m) = currentZoomScale s"
  "panX (showError s m) = panX s"
  "panY (showError s m) = panY s"
  by (simp_all add: showError_def)

lemma calculateBounds_frame [simp]:
  "canvasData (calculateBounds s) = canvasData s"
  "baseScale (calculateBounds s) = baseScale s"
  "currentZoomScale (calculateBounds s) = currentZoomScale s"
  "panX (calculateBounds s) = panX s"
  "panY (calculateBounds s) = panY s"
  by (simp_all add: calculateBounds_def split: option.splits)

lemma calculateScale_frame [simp]:
  "canvasData (calculateScale s) = canvasData s"
  "bounds (calculateScale s) = bounds s"
  "currentZoomScale (calculateScale s) = currentZoomScale s"
  "panX (calculateScale s) = panX s"
  "panY (calculateScale s) = panY s"
  by (simp_all add: calculateScale_def Let_def)

lemma loadCanvas_Some:
  "loadCanvas st path (Some cd) =
     (case snd (render (calculateScale (calculateBounds
                  (st\<lparr>canvasPath := Some path, canvasData := Some cd\<rparr>)))) of
        None \<Rightarrow> fst (render (calculateScale (calculateBounds
                  (st\<lparr>canvasPath := Some path, canvasData := Some cd\<rparr>))))
      | Some e \<Rightarrow> showError (fst (render (calculateScale (calculateBounds
                  (st\<lparr>canvasPath := Some path, canvasData := Some cd\<rparr>)))))
                  ''Failed to load canvas'')"
  by (simp add: loadCanvas_def Let_def split: prod.splits option.splits)

lemma loadCanvas_None:
  "loadCanvas st path None = showError (st\<lparr>canvasPath := Some path\<rparr>) ''Failed to load canvas''"
  by (simp add: loadCanvas_def Let_def)

lemma loadCanvas_transform:
  "currentZoomScale (loadCanvas st path parsed) = currentZoomScale st"
  "panX (loadCanvas st path parsed) = panX st"
  "panY (loadCanvas st path parsed) = panY st"
  by (cases parsed; simp add: loadCanvas_Some loadCanvas_None split: option.splits)+

text \<open>
  Claim C6, as amended. A document load, failed or successful, leaves the zoom
  multiplier and the pan as they were; they hold 1, 0 and 0 after a load on a freshly
  constructed renderer.
\<close>

theorem loadCanvas_keeps_transform:
  "currentZoomScale (loadCanvas st path parsed) = currentZoomScale st \<and>
   panX (loadCanvas st path parsed) = panX st \<and>
   panY (loadCanvas st path parsed) = panY st \<and>
   currentZoomScale (loadCanvas new_renderer path parsed) = Fin 1 \<and>
   panX (loadCanvas new_renderer path parsed) = Fin 0 \<and>
   panY (loadCanvas new_renderer path parsed) = Fin 0"
  by (simp add: loadCanvas_transform) (simp add: new_renderer_def)

text \<open>
  The claim as stated fails on a reload: after station 9 of the one-room document has
  been framed, loading the document again leaves zoom 1.5 and pan -230, -130.
\<close>

theorem reload_keeps_zoom_counterexample:
  "currentZoomScale
     (loadCanvas (fst (setCurrentStation (loaded room_doc) 9))
        ''palace.canvas'' (Some room_doc)) = Fin (3 / 2) \<and>
   panX
     (loadCanvas (fst (setCurrentStation (loaded room_doc) 9))
        ''palace.canvas'' (Some room_doc)) = Fin (- 230) \<and>
   panY
     (loadCanvas (fst (setCurrentStation (loaded room_doc) 9))
        ''palace.canvas'' (Some room_doc)) = Fin (- 130) \<and>
   Fin (3 / 2) \<noteq> Fin 1 \<and> Fin (- 230) \<noteq> Fin 0 \<and> Fin (- 130) \<noteq> Fin 0"
  by code_simp

section \<open>A station in several groups\<close>

lemma findContainingGroup_groups_containing:
  assumes "canvasData st = Some cd"
  shows "findContainingGroup st n =
     (if length (groups_containing cd n) > 1
      then Inl (Error (multiple_groups_message n (groups_containing cd n)))
      else Inr (if length (groups_containing cd n) > 0 then Some (groups_containing cd n ! 0)
                else None))"
  using assms by (simp add: findContainingGroup_def Let_def filter_groups_containing)

lemma findContainingGroup_station [simp]:
  "findContainingGroup (s\<lparr>currentStationId := c\<rparr>) n = findContainingGroup s n"
  by (simp add: findContainingGroup_def)

text \<open>
  Claim C1, as amended. If the anchor of the station being made current is contained
  in two or more groups, \<open>setCurrentStation\<close> records the station id and throws the
  multiple-membership error to its caller before it re-frames or redraws: zoom, pan
  and the drawing surface stay as they were. A render in that state clears the
  surface and throws the same error before any group or anchor is drawn.
\<close>

theorem multiple_groups_block_draw:
  assumes "canvasData st = Some cd"
    and "find_station_node (nodes cd) (Some sid) = Some n"
    and "length (groups_containing cd n) \<ge> 2"
  shows "setCurrentStation st sid =
           (st\<lparr>currentStationId := Some sid\<rparr>,
            Some (Error (''Station '' @ text_str (node_text n) @ '' belongs to multiple groups: '' @
                         join '', '' (map group_name (groups_containing cd n)) @
                         ''. Each station must belong to at most one group.''))) \<and>
         (svgElement st \<noteq> None \<longrightarrow>
            render (st\<lparr>currentStationId := Some sid\<rparr>) =
              (st\<lparr>currentStationId := Some sid, svgElement := Some [Defs]\<rparr>,
               Some (Error (''Station '' @ text_str (node_text n) @
                            '' belongs to multiple groups: '' @
                            join '', '' (map group_name (groups_containing cd n)) @
                            ''. Each station must belong to at most one group.''))))"
proof -
  let ?e = "Error (''Station '' @ text_str (node_text n) @ '' belongs to multiple groups: '' @
                         join '', '' (map group_name (groups_containing cd n)) @
                         ''. Each station must belong to at most one group.'')"
  have fc: "findContainingGroup st n = Inl ?e"
    using assms(3) by (simp add: findContainingGroup_groups_containing [OF assms(1)]
        multiple_groups_message_def)
  have pts: "panToStation (st\<lparr>currentStationId := Some sid\<rparr>) sid = Inl ?e"
    using assms(1,2) fc by (simp add: panToStation_def)
  have a: "setCurrentStation st sid = (st\<lparr>currentStationId := Some sid\<rparr>, Some ?e)"
    using pts by (simp add: setCurrentStation_def)
  have rg: "renderGroups (st\<lparr>currentStationId := Some sid\<rparr>) = Inl ?e"
    using assms(1,2) fc by (simp add: renderGroups_def)
  have b: "svgElement st \<noteq> None \<longrightarrow>
            render (st\<lparr>currentStationId := Some sid\<rparr>) =
              (st\<lparr>currentStationId := Some sid, svgElement := Some [Defs]\<rparr>, Some ?e)"
    using assms(1) rg by (simp add: render_result)
  from a b show ?thesis by (rule conjI)
qed

text \<open>Station 7 of the overlapping document lies in both groups.\<close>

theorem multiple_groups_block_draw_witness:
  "canvasData (loaded overlap_doc) = Some overlap_doc \<and>
   find_station_node (nodes overlap_doc) (Some 7) = Some anchor7 \<and>
   length (groups_containing overlap_doc anchor7) \<ge> 2 \<and>
   svgElement (loaded overlap_doc) \<noteq> None \<and>
   setCurrentStation (loaded overlap_doc) 7 =
     ((loaded overlap_doc)\<lparr>currentStationId := Some 7\<rparr>,
      Some (Error (''Station '' @ text_str (node_text anchor7) @ '' belongs to multiple groups: '' @
                   join '', '' (map group_name (groups_containing overlap_doc anchor7)) @
                   ''. Each station must belong to at most one group.''))) \<and>
   render ((loaded overlap_doc)\<lparr>currentStationId := Some 7\<rparr>) =
     ((loaded overlap_doc)\<lparr>currentStationId := Some 7, svgElement := Some [Defs]\<rparr>,
      Some (Error (''Station '' @ text_str (node_text anchor7) @ '' belongs to multiple groups: '' @
                   join '', '' (map group_name (groups_containing overlap_doc anchor7)) @
                   ''. Each station must belong to at most one group.'')))"
proof -
  have h1: "canvasData (loaded overlap_doc) = Some overlap_doc" by code_simp
  have h2: "find_station_node (nodes overlap_doc) (Some 7) = Some anchor7" by code_simp
  have h3: "length (groups_containing overlap_doc anchor7) \<ge> 2" by code_simp
  have h4: "svgElement (loaded overlap_doc) \<noteq> None" by code_simp
  show ?thesis
    using h1 h2 h3 h4 multiple_groups_block_draw [OF h1 h2 h3] by blast
qed

text \<open>
  The claim as stated fails there: the call returns with the error and the state of the
  load, in which only the station id has changed, and a render leaves nothing but the
  definitions element on the surface.
\<close>

theorem multiple_groups_block_draw_counterexample:
  "setCurrentStation (loaded overlap_doc) 7 =
     ((loaded overlap_doc)\<lparr>currentStationId := Some 7\<rparr>,
      Some (Error ''Station 7 belongs to multiple groups: Room A, g2. Each station must belong to at most one group.'')) \<and>
   render ((loaded overlap_doc)\<lparr>currentStationId := Some 7\<rparr>) =
     ((loaded overlap_doc)
        \<lparr>currentStationId := Some 7, svgElement := Some [Defs]\<rparr>,
      Some (Error ''Station 7 belongs to multiple groups: Room A, g2. Each station must belong to at most one group.''))"
  by code_simp

section \<open>Node framing\<close>

lemma node_zoom_range:
  assumes "b \<noteq> NaN"
  shows "\<exists>z. jmin (Fin 3) (jmax (Fin 1.5) (jdiv (Fin 1) b)) = Fin z \<and> 3 / 2 \<le> z \<and> z \<le> 3"
proof (cases b)
  case (Fin x)
  show ?thesis
  proof (cases "x = 0")
    case True
    with Fin have "jmin (Fin 3) (jmax (Fin 1.5) (jdiv (Fin 1) b)) = Fin 3"
      by (simp add: jmin_def jmax_def jinf_def)
    then show ?thesis by (intro exI [of _ 3]) simp
  next
    case False
    with Fin have "jmin (Fin 3) (jmax (Fin 1.5) (jdiv (Fin 1) b)) = Fin (min 3 (max 1.5 (1 / x)))"
      by simp
    then show ?thesis by (intro exI [of _ "min 3 (max 1.5 (1 / x))"]) simp
  qed
next
  case PInf
  then have "jmin (Fin 3) (jmax (Fin 1.5) (jdiv (Fin 1) b)) = Fin 1.5"
    by simp
  then show ?thesis by (intro exI [of _ "3 / 2"]) simp
next
  case NInf
  then have "jmin (Fin 3) (jmax (Fin 1.5) (jdiv (Fin 1) b)) = Fin 1.5"
    by simp
  then show ?thesis by (intro exI [of _ "3 / 2"]) simp
next
  case NaN
  with assms show ?thesis by simp
qed

text \<open>
  Claim C8. When the anchor of the station exists and no group contains it, setting the
  current station stores the zoom multiplier \<open>Math.min(3, Math.max(1.5, 1 / baseScale))\<close>,
  which lies between 1.5 and 3 for every base scale that is a number.
\<close>

theorem node_framing_zoom:
  assumes "canvasData st = Some cd"
    and "find_station_node (nodes cd) (Some sid) = Some n"
    and "groups_containing cd n = []"
    and "baseScale st \<noteq> NaN"
  shows "currentZoomScale (fst (setCurrentStation st sid)) =
           Math_min [Fin 3, Math_max [Fin 1.5, jdiv (Fin 1) (baseScale st)]] \<and>
         jle (Fin 1.5) (currentZoomScale (fst (setCurrentStation st sid))) \<and>
         jle (currentZoomScale (fst (setCurrentStation st sid))) (Fin 3) \<and>
         (\<forall>b. baseScale st = Fin b \<and> b \<noteq> 0 \<longrightarrow>
            currentZoomScale (fst (setCurrentStation st sid)) = Fin (min 3 (max 1.5 (1 / b))))"
proof -
  have fc: "findContainingGroup st n = Inr None"
    using assms(3) by (simp add: findContainingGroup_groups_containing [OF assms(1)])
  have pts: "panToStation (st\<lparr>currentStationId := Some sid\<rparr>) sid =
      Inr (panToNode (st\<lparr>currentStationId := Some sid\<rparr>) n)"
    using assms(1,2) fc by (simp add: panToStation_def)
  have z: "currentZoomScale (fst (setCurrentStation st sid)) =
      jmin (Fin 3) (jmax (Fin 1.5) (jdiv (Fin 1) (baseScale st)))"
    using pts by (simp add: setCurrentStation_def zoom_panToNode)
  from node_zoom_range [OF assms(4)] obtain r where
    r: "jmin (Fin 3) (jmax (Fin 1.5) (jdiv (Fin 1) (baseScale st))) = Fin r" "3 / 2 \<le> r" "r \<le> 3"
    by blast
  have c1: "currentZoomScale (fst (setCurrentStation st sid)) =
           Math_min [Fin 3, Math_max [Fin 1.5, jdiv (Fin 1) (baseScale st)]]"
    by (simp add: z)
  have c2: "jle (Fin 1.5) (currentZoomScale (fst (setCurrentStation st sid)))"
    using r by (simp add: z jle_def)
  have c3: "jle (currentZoomScale (fst (setCurrentStation st sid))) (Fin 3)"
    using r by (simp add: z jle_def)
  have c4: "\<forall>b. baseScale st = Fin b \<and> b \<noteq> 0 \<longrightarrow>
            currentZoomScale (fst (setCurrentStation st sid)) = Fin (min 3 (max 1.5 (1 / b)))"
    by (auto simp add: z)
  from c1 c2 c3 c4 show ?thesis by blast
qed

text \<open>Station 9 of the one-room document lies in no group.\<close>

theorem node_framing_zoom_witness:
  "canvasData (loaded room_doc) = Some room_doc \<and>
   find_station_node (nodes room_doc) (Some 9) = Some anchor9 \<and>
   groups_containing room_doc anchor9 = [] \<and>
   baseScale (loaded room_doc) \<noteq> NaN \<and>
   jle (Fin 1.5) (currentZoomScale (fst (setCurrentStation (loaded room_doc) 9))) \<and>
   jle (currentZoomScale (fst (setCurrentStation (loaded room_doc) 9))) (Fin 3)"
proof -
  have h1: "canvasData (loaded room_doc) = Some room_doc" by code_simp
  have h2: "find_station_node (nodes room_doc) (Some 9) = Some anchor9" by code_simp
  have h3: "groups_containing room_doc anchor9 = []" by code_simp
  have h4: "baseScale (loaded room_doc) \<noteq> NaN" by code_simp
  show ?thesis
    using h1 h2 h3 h4 node_framing_zoom [OF h1 h2 h3 h4] by blast
qed

end
